theory Spec2Isabelle
  imports Main
begin

section \<open>Python built-ins used by the scraper\<close>

text \<open>
  A Python \<open>str\<close> is modelled as a list of code points below 256 (\<^typ>\<open>string\<close>), a Python
  \<open>int\<close> as \<^typ>\<open>int\<close>. Resource limits of an interpreter (memory, the configurable cap on the
  number of digits \<open>int\<close> converts) are not part of the model.
\<close>

datatype error =
    InvalidLiteral string      \<comment> \<open>ValueError: invalid literal for int() with base 10\<close>
  | NotEnoughValues            \<comment> \<open>ValueError: not enough values to unpack (expected 2, got fewer)\<close>
  | TooManyValues              \<comment> \<open>ValueError: too many values to unpack (expected 2)\<close>
  | CannotInsert string        \<comment> \<open>ValueError: cannot insert <column>, already exists\<close>
  | IndexError                 \<comment> \<open>IndexError of DataFrame.insert for a position past the end\<close>
  | RequestException string    \<comment> \<open>an exception raised by requests.get\<close>

subsection \<open>\<open>range\<close>\<close>

text \<open>\<open>list(range(start, stop))\<close>: counts up from \<open>start\<close> while below \<open>stop\<close>.\<close>

function py_range :: "int \<Rightarrow> int \<Rightarrow> int list" where
  "py_range start stop = (if start < stop then start # py_range (start + 1) stop else [])"
  by pat_completeness auto
termination
  by (relation "measure (\<lambda>(start, stop). nat (stop - start))") auto

declare py_range.simps [simp del]

subsection \<open>\<open>str.split\<close> with a one-character separator\<close>

text \<open>
  \<open>value.split("-")\<close>: the pieces between the separators, empty pieces kept; a string
  without the separator gives the one-element list of itself.
\<close>

fun str_split :: "char \<Rightarrow> string \<Rightarrow> string list" where
  "str_split sep [] = [[]]"
| "str_split sep (c # cs) =
     (if c = sep then [] # str_split sep cs
      else (case str_split sep cs of
              [] \<Rightarrow> [[c]]
            | p # ps \<Rightarrow> (c # p) # ps))"

subsection \<open>\<open>int(str)\<close> and \<open>str(int)\<close>\<close>

text \<open>
  \<open>int(s)\<close> in base 10: surrounding whitespace is skipped, then an optional sign, then
  decimal digits, where single underscores may stand between two digits. Anything else
  raises ValueError. The whitespace \<open>int\<close> skips is tab, line feed, vertical tab, form
  feed, carriage return, space, U+0085 and U+00A0.
\<close>

definition int_space :: "char \<Rightarrow> bool" where
  "int_space c = (c \<in> {CHR 0x09, CHR 0x0A, CHR 0x0B, CHR 0x0C, CHR 0x0D, CHR 0x20,
                        CHR 0x85, CHR 0xA0})"

definition int_strip :: "string \<Rightarrow> string" where
  "int_strip s = rev (dropWhile int_space (rev (dropWhile int_space s)))"

definition isdigit :: "char \<Rightarrow> bool" where
  "isdigit c = ((48::nat) \<le> of_char c \<and> of_char c \<le> (57::nat))"

definition digit_val :: "char \<Rightarrow> int" where
  "digit_val c = of_char c - 48"

text \<open>
  The digit scanner: \<open>acc\<close> is the value read so far, \<open>prev\<close> tells whether the previous
  character was a digit (an underscore is accepted only then, and the text may end only
  then).
\<close>

fun scan_digits :: "int \<Rightarrow> bool \<Rightarrow> string \<Rightarrow> int option" where
  "scan_digits acc prev [] = (if prev then Some acc else None)"
| "scan_digits acc prev (c # cs) =
     (if isdigit c then scan_digits (10 * acc + digit_val c) True cs
      else if c = CHR ''_'' \<and> prev then
        (case cs of
           [] \<Rightarrow> None
         | d # _ \<Rightarrow> if isdigit d then scan_digits acc False cs else None)
      else None)"

definition py_int :: "string \<Rightarrow> error + int" where
  "py_int s =
     (let t = int_strip s;
          (sign, body) =
            (case t of
               [] \<Rightarrow> (1, [])
             | c # cs \<Rightarrow> if c = CHR ''+'' then (1, cs)
                         else if c = CHR ''-'' then (- 1, cs)
                         else (1, t))
      in case scan_digits 0 False body of
           None \<Rightarrow> Inl (InvalidLiteral s)
         | Some v \<Rightarrow> Inr (sign * v))"

text \<open>\<open>str(n)\<close>, which is also what an f-string writes for an integer field.\<close>

definition digit_char :: "nat \<Rightarrow> char" where
  "digit_char d = ''0123456789'' ! d"

fun digits :: "nat \<Rightarrow> string" where
  "digits n = (if n < 10 then [digit_char n] else digits (n div 10) @ [digit_char (n mod 10)])"

declare digits.simps [simp del]

definition py_str :: "int \<Rightarrow> string" where
  "py_str n = (if n < 0 then CHR ''-'' # digits (nat (- n)) else digits (nat n))"

section \<open>RangeSelector: \<open>parse_range_or_all\<close>\<close>

text \<open>
  \<open>start, end = map(int, value.split("-"))\<close> unpacks a lazy iterator: the first two items
  are converted in turn, then a third item is asked for; a conversion that fails raises
  its own ValueError, a third item that converts raises "too many values".
\<close>

fun unpack2 :: "string list \<Rightarrow> error + (int \<times> int)" where
  "unpack2 [] = Inl NotEnoughValues"
| "unpack2 [p] = (case py_int p of Inl e \<Rightarrow> Inl e | Inr _ \<Rightarrow> Inl NotEnoughValues)"
| "unpack2 (p # q # rest) =
     (case py_int p of
        Inl e \<Rightarrow> Inl e
      | Inr start \<Rightarrow>
          (case py_int q of
             Inl e \<Rightarrow> Inl e
           | Inr end \<Rightarrow>
               (case rest of
                  [] \<Rightarrow> Inr (start, end)
                | r # _ \<Rightarrow> (case py_int r of Inl e \<Rightarrow> Inl e | Inr _ \<Rightarrow> Inl TooManyValues))))"

definition parse_range_or_all :: "string \<Rightarrow> int list \<Rightarrow> error + int list" where
  "parse_range_or_all v full_range =
     (if v = ''all'' then Inr full_range
      else if CHR ''-'' \<in> set v then
        (case unpack2 (str_split (CHR ''-'') v) of
           Inl e \<Rightarrow> Inl e
         | Inr (start, end) \<Rightarrow> Inr (py_range start (end + 1)))
      else (case py_int v of Inl e \<Rightarrow> Inl e | Inr n \<Rightarrow> Inr [n]))"

section \<open>Driver: the default year range\<close>

text \<open>
  \<open>full_years = list(range(2002, dt.now().year-1))\<close> in \<open>main\<close>, with the calendar year
  read from the clock passed in as \<open>now_year\<close>.
\<close>

definition full_years :: "int \<Rightarrow> int list" where
  "full_years now_year = py_range 2002 (now_year - 1)"

section \<open>The parsed page (BeautifulSoup)\<close>

text \<open>
  The tree \<open>BeautifulSoup(response.content, "html.parser")\<close> builds is taken as given: a
  tag has a name, a dictionary of attributes and its contents in document order; a
  \<open>NavigableString\<close> is a piece of text that \<open>get_text\<close> reports. The document itself is
  a tag whose contents are the top-level nodes.
\<close>

datatype node =
    Tag string "(string \<times> string) list" "node list"
  | NavigableString string

text \<open>\<open>tag.descendants\<close>: every node below the tag, in document order.\<close>

fun descendants :: "node \<Rightarrow> node list" where
  "descendants (NavigableString s) = []"
| "descendants (Tag name attrs contents) = concat (map (\<lambda>c. c # descendants c) contents)"

definition is_named :: "string \<Rightarrow> node \<Rightarrow> bool" where
  "is_named name n = (case n of Tag m _ _ \<Rightarrow> m = name | NavigableString _ \<Rightarrow> False)"

definition has_attrs :: "(string \<times> string) list \<Rightarrow> node \<Rightarrow> bool" where
  "has_attrs wanted n =
     (case n of
        Tag _ attrs _ \<Rightarrow> list_all (\<lambda>(k, v). map_of attrs k = Some v) wanted
      | NavigableString _ \<Rightarrow> False)"

text \<open>\<open>tag.find_all(name)\<close>: the descendants with that tag name, in document order.\<close>

definition find_all :: "string \<Rightarrow> node \<Rightarrow> node list" where
  "find_all name t = filter (is_named name) (descendants t)"

text \<open>\<open>soup.find(name, attrs)\<close>: the first descendant with that name and those attribute
  values, or \<open>None\<close>.\<close>

definition soup_find :: "string \<Rightarrow> (string \<times> string) list \<Rightarrow> node \<Rightarrow> node option" where
  "soup_find name wanted t =
     (case filter (\<lambda>n. is_named name n \<and> has_attrs wanted n) (descendants t) of
        [] \<Rightarrow> None
      | n # _ \<Rightarrow> Some n)"

text \<open>
  \<open>tag.get_text(strip=True)\<close>: every string below the tag is stripped with \<open>str.strip()\<close>,
  the empty results are dropped and the rest are joined without a separator. The
  whitespace of \<open>str.strip()\<close> is that of \<open>int\<close> and the separators U+001C to U+001F.
\<close>

definition str_space :: "char \<Rightarrow> bool" where
  "str_space c = (int_space c \<or> c \<in> {CHR 0x1C, CHR 0x1D, CHR 0x1E, CHR 0x1F})"

definition str_strip :: "string \<Rightarrow> string" where
  "str_strip s = rev (dropWhile str_space (rev (dropWhile str_space s)))"

definition strings :: "node \<Rightarrow> string list" where
  "strings t = concat (map (\<lambda>n. case n of NavigableString s \<Rightarrow> [s] | Tag _ _ _ \<Rightarrow> [])
                            (descendants t))"

definition get_text :: "node \<Rightarrow> string" where
  "get_text t = concat (filter (\<lambda>s. s \<noteq> []) (map str_strip (strings t)))"

section \<open>The data frame (pandas)\<close>

datatype cell = StrCell string | IntCell int

record dataframe =
  columns :: "string list"
  rows :: "cell list list"

text \<open>\<open>pd.DataFrame()\<close>\<close>

definition pd_DataFrame_empty :: dataframe where
  "pd_DataFrame_empty = \<lparr>columns = [], rows = []\<rparr>"

text \<open>\<open>pd.DataFrame(rows, columns=headers)\<close>, called with rows as long as \<open>headers\<close>.\<close>

definition pd_DataFrame :: "string list list \<Rightarrow> string list \<Rightarrow> dataframe" where
  "pd_DataFrame rs headers = \<lparr>columns = headers, rows = map (map StrCell) rs\<rparr>"

text \<open>\<open>df.empty\<close>: some axis has length zero.\<close>

definition df_empty :: "dataframe \<Rightarrow> bool" where
  "df_empty df = (columns df = [] \<or> rows df = [])"

text \<open>
  \<open>df.insert(loc, column, value)\<close> with a scalar value: refuses a label the frame already
  has, otherwise puts the new column at position \<open>loc\<close>, the value in every row.
\<close>

definition df_insert :: "nat \<Rightarrow> string \<Rightarrow> cell \<Rightarrow> dataframe \<Rightarrow> error + dataframe" where
  "df_insert loc column v df =
     (if column \<in> set (columns df) then Inl (CannotInsert column)
      else if length (columns df) < loc then Inl IndexError
      else Inr \<lparr>columns = take loc (columns df) @ column # drop loc (columns df),
                rows = map (\<lambda>r. take loc r @ v # drop loc r) (rows df)\<rparr>)"

text \<open>
  \<open>pd.concat(frames, ignore_index=True)\<close>: frames with one and the same column list are
  stacked, rows in the order of the frames. What pandas does with frames whose column
  lists differ (the outer join of the labels) is the parameter \<open>outer\<close>; the call is taken
  to return a frame.
\<close>

definition pd_concat :: "(dataframe list \<Rightarrow> dataframe) \<Rightarrow> dataframe list \<Rightarrow> dataframe" where
  "pd_concat outer frames =
     (if list_all (\<lambda>f. columns f = columns (hd frames)) frames
      then \<lparr>columns = columns (hd frames), rows = concat (map rows frames)\<rparr>
      else outer frames)"

section \<open>Effects\<close>

text \<open>
  What the scraper does to the outside is recorded as a trace of events, in the order it
  happens. A message names the \<open>print\<close> statement and carries its arguments (the position
  is printed upper-cased). File-system and library calls after the weeks' loop are taken to
  return normally.
\<close>

datatype message =
    Fetching string int int        \<comment> \<open>Fetching <position> stats: Week <week>, Year <year>\<close>
  | HttpStatus int string          \<comment> \<open>HTTP <status> for <url>\<close>
  | NoTableFound string int int    \<comment> \<open>No table found for <position> week <week>, year <year>\<close>
  | Scraping string int            \<comment> \<open>Scraping <position> for <year>...\<close>
  | ErrorMsg error                 \<comment> \<open>Error: <exception>\<close>
  | Saved nat string               \<comment> \<open>Saved <row count> rows -> <path>\<close>
  | NoData string int              \<comment> \<open>No data scraped for <position> in <year>\<close>

datatype event =
    Print message
  | Get string                     \<comment> \<open>requests.get(url, headers=HEADERS)\<close>
  | Sleep                          \<comment> \<open>time.sleep(random.uniform(1.0, 2.0))\<close>
  | Makedirs string                \<comment> \<open>os.makedirs(path, exist_ok=True)\<close>
  | ToCsv string dataframe         \<comment> \<open>year_df.to_csv(path, index=False)\<close>
  | ToParquet string dataframe     \<comment> \<open>year_df.to_parquet(path, index=False)\<close>
  | ToJson string dataframe        \<comment> \<open>year_df.to_json(path, orient="records", lines=True)\<close>

text \<open>The answer of \<open>requests.get\<close>: an exception, or a response with its status and the
  tree its body parses to.\<close>

record response =
  status_code :: int
  content :: node

datatype outcome = Raises error | Returns response

section \<open>TableExtractor: \<open>fetch_week_data\<close>\<close>

definition week_url :: "string \<Rightarrow> int \<Rightarrow> int \<Rightarrow> string" where
  "week_url position week year =
     ''https://www.fantasypros.com/nfl/stats/'' @ position @ ''.php''
       @ ''?range=week&week='' @ py_str week @ ''&year='' @ py_str year"

text \<open>\<open>headers = [th.get_text(strip=True) for th in table.find_all("th")]\<close>\<close>

definition table_headers :: "node \<Rightarrow> string list" where
  "table_headers table = map get_text (find_all ''th'' table)"

text \<open>\<open>cells = [td.get_text(strip=True) for td in tr.find_all("td")]\<close>\<close>

definition row_cells :: "node \<Rightarrow> string list" where
  "row_cells tr = map get_text (find_all ''td'' tr)"

text \<open>The loop over \<open>table.find_all("tr")[1:]\<close>, appending to \<open>rows\<close>.\<close>

fun collect_rows :: "string list \<Rightarrow> node list \<Rightarrow> string list list \<Rightarrow> string list list" where
  "collect_rows headers [] rs = rs"
| "collect_rows headers (tr # trs) rs =
     (let cells = row_cells tr
      in if cells \<noteq> [] \<and> length cells = length headers
         then collect_rows headers trs (rs @ [cells])
         else collect_rows headers trs rs)"

definition fetch_week_data ::
  "(string \<Rightarrow> outcome) \<Rightarrow> string \<Rightarrow> int \<Rightarrow> int \<Rightarrow> event list \<times> (error + dataframe)" where
  "fetch_week_data r_get position week year =
     (let url = week_url position week year;
          started = [Print (Fetching position week year), Get url]
      in case r_get url of
           Raises e \<Rightarrow> (started, Inl e)
         | Returns response \<Rightarrow>
             if status_code response \<noteq> 200
             then (started @ [Print (HttpStatus (status_code response) url)],
                   Inr pd_DataFrame_empty)
             else
               (case soup_find ''table'' [(''id'', ''data'')] (content response) of
                  None \<Rightarrow> (started @ [Print (NoTableFound position week year)],
                            Inr pd_DataFrame_empty)
                | Some table \<Rightarrow>
                    let headers = table_headers table;
                        rs = collect_rows headers (drop 1 (find_all ''tr'' table)) []
                    in if rs = [] then (started, Inr pd_DataFrame_empty)
                       else
                         (case df_insert 0 ''week'' (IntCell week) (pd_DataFrame rs headers) of
                            Inl e \<Rightarrow> (started, Inl e)
                          | Inr df \<Rightarrow> (started, df_insert 0 ''year'' (IntCell year) df))))"

section \<open>PositionYearScraper: \<open>scrape\<close>\<close>

text \<open>\<open>str.lower()\<close> on code points below 256.\<close>

definition str_lower :: "string \<Rightarrow> string" where
  "str_lower s =
     map (\<lambda>c. let k = of_char c :: nat
               in if (65 \<le> k \<and> k \<le> 90) \<or> (192 \<le> k \<and> k \<le> 214) \<or> (216 \<le> k \<and> k \<le> 222)
                  then char_of (k + 32) else c) s"

text \<open>\<open>os.path.join(a, b)\<close> (POSIX).\<close>

definition path_join :: "string \<Rightarrow> string \<Rightarrow> string" where
  "path_join a b =
     (if b \<noteq> [] \<and> hd b = CHR ''/'' then b
      else if a = [] \<or> last a = CHR ''/'' then a @ b
      else a @ ''/'' @ b)"

text \<open>
  The loop over \<open>weeks\<close>. \<open>net n\<close> answers the \<open>n\<close>-th request; \<open>evs\<close> is the trace so far and
  \<open>all_weeks\<close> the frames collected so far. An exception of the fetch is caught and
  printed, and skips the pause.
\<close>

fun scrape_loop ::
  "(nat \<Rightarrow> string \<Rightarrow> outcome) \<Rightarrow> string \<Rightarrow> int \<Rightarrow> int list \<Rightarrow> nat \<Rightarrow> event list \<Rightarrow> dataframe list
     \<Rightarrow> event list \<times> dataframe list" where
  "scrape_loop net position year [] n evs all_weeks = (evs, all_weeks)"
| "scrape_loop net position year (week # weeks) n evs all_weeks =
     (case fetch_week_data (net n) position week year of
        (fev, Inl e) \<Rightarrow>
          scrape_loop net position year weeks (Suc n) (evs @ fev @ [Print (ErrorMsg e)]) all_weeks
      | (fev, Inr df) \<Rightarrow>
          scrape_loop net position year weeks (Suc n) (evs @ fev @ [Sleep])
            (if \<not> df_empty df then all_weeks @ [df] else all_weeks))"

definition scrape ::
  "(nat \<Rightarrow> string \<Rightarrow> outcome) \<Rightarrow> (dataframe list \<Rightarrow> dataframe) \<Rightarrow> string \<Rightarrow> int \<Rightarrow> int list
     \<Rightarrow> string \<Rightarrow> string \<Rightarrow> event list" where
  "scrape net outer position year weeks output_dir file_format =
     (let (evs, all_weeks) = scrape_loop net position year weeks 0 [Print (Scraping position year)] []
      in if all_weeks \<noteq> [] then
           (let year_df = pd_concat outer all_weeks;
                out_dir = path_join output_dir position;
                ext = str_lower file_format;
                output_path = path_join out_dir (position @ ''_'' @ py_str year @ ''.'' @ ext)
            in evs @ [Makedirs out_dir]
                 @ (if ext = ''csv'' then [ToCsv output_path year_df]
                    else if ext = ''parquet'' then [ToParquet output_path year_df]
                    else if ext = ''json'' then [ToJson output_path year_df]
                    else [])
                 @ [Print (Saved (length (rows year_df)) output_path)])
         else evs @ [Print (NoData position year)])"

text \<open>The frame a write event puts into its file.\<close>

fun written :: "event \<Rightarrow> dataframe option" where
  "written (ToCsv path df) = Some df"
| "written (ToParquet path df) = Some df"
| "written (ToJson path df) = Some df"
| "written _ = None"

text \<open>Whether an event is a request to the server.\<close>

fun is_get :: "event \<Rightarrow> bool" where
  "is_get (Get url) = True"
| "is_get _ = False"

section \<open>Notions used to state the properties\<close>

text \<open>
  The cell lists the loop of \<open>fetch_week_data\<close> keeps: those of the \<open>tr\<close> elements after the
  first one that are not empty and as long as the header list.
\<close>

definition valid_rows :: "node \<Rightarrow> string list list" where
  "valid_rows table =
     filter (\<lambda>cells. cells \<noteq> [] \<and> length cells = length (table_headers table))
       (map row_cells (drop 1 (find_all ''tr'' table)))"


text \<open>The frames the weeks of a pair yield, in week order; \<open>n\<close> numbers the first request.\<close>

fun week_frames ::
  "(nat \<Rightarrow> string \<Rightarrow> outcome) \<Rightarrow> string \<Rightarrow> int \<Rightarrow> nat \<Rightarrow> int list \<Rightarrow> dataframe list" where
  "week_frames net position year n [] = []"
| "week_frames net position year n (week # weeks) =
     (case snd (fetch_week_data (net n) position week year) of
        Inl _ \<Rightarrow> []
      | Inr df \<Rightarrow> if df_empty df then [] else [df])
     @ week_frames net position year (Suc n) weeks"

text \<open>
  What the loop of \<open>scrape\<close> adds to the trace: for each week in order, the events of its
  fetch, then the printed exception if the fetch raised, the pause otherwise.
\<close>

fun week_trace ::
  "(nat \<Rightarrow> string \<Rightarrow> outcome) \<Rightarrow> string \<Rightarrow> int \<Rightarrow> nat \<Rightarrow> int list \<Rightarrow> event list" where
  "week_trace net position year n [] = []"
| "week_trace net position year n (week # weeks) =
     (case fetch_week_data (net n) position week year of
        (fev, Inl e) \<Rightarrow> fev @ [Print (ErrorMsg e)]
      | (fev, Inr df) \<Rightarrow> fev @ [Sleep])
     @ week_trace net position year (Suc n) weeks"

text \<open>The rows a fetch hands back: those of its frame, none if it raised.\<close>

definition fetched_rows :: "error + dataframe \<Rightarrow> cell list list" where
  "fetched_rows r = (case r of Inl _ \<Rightarrow> [] | Inr df \<Rightarrow> rows df)"

text \<open>\<open>year_df\<close> and \<open>output_path\<close> of \<open>scrape\<close>.\<close>

definition year_frame ::
  "(nat \<Rightarrow> string \<Rightarrow> outcome) \<Rightarrow> (dataframe list \<Rightarrow> dataframe) \<Rightarrow> string \<Rightarrow> int \<Rightarrow> int list
     \<Rightarrow> dataframe" where
  "year_frame net outer position year weeks =
     pd_concat outer (week_frames net position year 0 weeks)"

definition output_file :: "string \<Rightarrow> string \<Rightarrow> int \<Rightarrow> string \<Rightarrow> string" where
  "output_file output_dir position year file_format =
     path_join (path_join output_dir position)
       (position @ ''_'' @ py_str year @ ''.'' @ str_lower file_format)"

section \<open>Sample pages and a sample server\<close>

text \<open>A data table with header \<open>A\<close>, \<open>B\<close>, one well-formed row and one short row.\<close>

definition demo_table :: node where
  "demo_table =
     Tag ''table'' [(''class'', ''table''), (''id'', ''data'')]
       [Tag ''tr'' [] [Tag ''th'' [] [NavigableString ''A''], Tag ''th'' [] [NavigableString '' B'']],
        Tag ''tr'' [] [Tag ''td'' [] [NavigableString ''1''], Tag ''td'' [] [NavigableString ''2 '']],
        Tag ''tr'' [] [Tag ''td'' [] [NavigableString ''x'']]]"

definition demo_page :: node where
  "demo_page = Tag ''[document]'' [] [Tag ''html'' [] [Tag ''body'' [] [demo_table]]]"

definition demo_frame :: dataframe where
  "demo_frame = \<lparr>columns = [''year'', ''week'', ''A'', ''B''],
                  rows = [[IntCell 2023, IntCell 1, StrCell ''1'', StrCell ''2'']]\<rparr>"

text \<open>A page whose only table carries another identifier.\<close>

definition no_table_page :: node where
  "no_table_page =
     Tag ''[document]'' []
       [Tag ''p'' [] [NavigableString ''maintenance''], Tag ''table'' [(''id'', ''other'')] []]"

text \<open>A server that answers the first request with the sample page, the second with
  status 404, and lets every later request time out.\<close>

definition demo_net :: "nat \<Rightarrow> string \<Rightarrow> outcome" where
  "demo_net n url =
     (if n = 0 then Returns \<lparr>status_code = 200, content = demo_page\<rparr>
      else if n = 1 then Returns \<lparr>status_code = 404, content = no_table_page\<rparr>
      else Raises (RequestException ''timed out''))"

text \<open>A data table without header cells whose second row has no cells.\<close>

definition bare_table :: node where
  "bare_table = Tag ''table'' [(''id'', ''data'')] [Tag ''tr'' [] [], Tag ''tr'' [] []]"

definition bare_page :: node where
  "bare_page = Tag ''[document]'' [] [bare_table]"

text \<open>A data table one of whose header labels is \<open>week\<close>.\<close>

definition week_page :: node where
  "week_page =
     Tag ''[document]'' []
       [Tag ''table'' [(''id'', ''data'')]
          [Tag ''tr'' [] [Tag ''th'' [] [NavigableString ''week''], Tag ''th'' [] [NavigableString ''B'']],
           Tag ''tr'' [] [Tag ''td'' [] [NavigableString ''1''], Tag ''td'' [] [NavigableString ''2'']]]]"

definition no_table_get :: "string \<Rightarrow> outcome" where
  "no_table_get url = Returns \<lparr>status_code = 200, content = no_table_page\<rparr>"

definition bare_get :: "string \<Rightarrow> outcome" where
  "bare_get url = Returns \<lparr>status_code = 200, content = bare_page\<rparr>"

definition week_get :: "string \<Rightarrow> outcome" where
  "week_get url = Returns \<lparr>status_code = 200, content = week_page\<rparr>"

text \<open>A stand-in for what pandas does with frames whose column lists differ.\<close>

definition no_outer :: "dataframe list \<Rightarrow> dataframe" where
  "no_outer frames = pd_DataFrame_empty"


text \<open>A server that answers the first request with status 404, the second with the sample
  page, and lets every later request time out.\<close>

definition flaky_net :: "nat \<Rightarrow> string \<Rightarrow> outcome" where
  "flaky_net n url =
     (if n = 0 then Returns \<lparr>status_code = 404, content = no_table_page\<rparr>
      else if n = 1 then Returns \<lparr>status_code = 200, content = demo_page\<rparr>
      else Raises (RequestException ''timed out''))"

definition demo_frame_2 :: dataframe where
  "demo_frame_2 = \<lparr>columns = [''year'', ''week'', ''A'', ''B''],
                    rows = [[IntCell 2023, IntCell 2, StrCell ''1'', StrCell ''2'']]\<rparr>"

section \<open>Properties of the built-ins\<close>

lemma py_range_upto: "py_range a b = [a..b - 1]"
proof (induction a b rule: py_range.induct)
  case (1 start stop)
  show ?case
  proof (cases "start < stop")
    case True
    with 1 show ?thesis
      by (subst py_range.simps, subst upto.simps) simp
  next
    case False
    then show ?thesis
      by (subst py_range.simps) simp
  qed
qed

lemma str_split_not_Nil: "str_split sep s \<noteq> []"
  by (induction s) (auto split: list.splits)

lemma str_split_no_sep: "sep \<notin> set s \<Longrightarrow> str_split sep s = [s]"
  by (induction s) auto

lemma str_split_append: "sep \<notin> set p \<Longrightarrow> str_split sep (p @ sep # t) = p # str_split sep t"
  by (induction p) auto

lemma length_str_split: "length (str_split sep s) = Suc (count_list s sep)"
  by (induction s) (auto split: list.splits simp: str_split_not_Nil)

lemma scan_digits_append:
  "\<forall>c \<in> set xs. isdigit c \<Longrightarrow>
   scan_digits acc prev (xs @ ys) =
   scan_digits (foldl (\<lambda>a c. 10 * a + digit_val c) acc xs) (prev \<or> xs \<noteq> []) ys"
  by (induction xs arbitrary: acc prev) auto

lemma digit_char_props:
  assumes "d < 10"
  shows "isdigit (digit_char d) \<and> digit_val (digit_char d) = int d"
proof -
  from assms have "d \<in> {0, 1, 2, 3, 4, 5, 6, 7, 8, 9}" by auto
  then show ?thesis
    by (auto simp: digit_char_def isdigit_def digit_val_def)
qed

lemma digits_isdigit: "c \<in> set (digits n) \<Longrightarrow> isdigit c"
proof (induction n rule: digits.induct)
  case (1 n)
  then show ?case
    by (subst (asm) (2) digits.simps) (auto simp: digit_char_props split: if_splits)
qed

lemma digits_not_Nil: "digits n \<noteq> []"
  by (subst digits.simps) simp

lemma digits_value: "foldl (\<lambda>a c. 10 * a + digit_val c) 0 (digits n) = int n"
proof (induction n rule: digits.induct)
  case (1 n)
  show ?case
  proof (cases "n < 10")
    case True
    then show ?thesis by (subst digits.simps) (simp add: digit_char_props)
  next
    case False
    have "10 * int (n div 10) + int (n mod 10) = int n"
      by presburger
    with False 1 show ?thesis
      by (subst digits.simps) (simp add: digit_char_props)
  qed
qed

lemma int_strip_digits: "int_strip (digits n) = digits n"
proof -
  have ns: "\<And>c. isdigit c \<Longrightarrow> \<not> int_space c"
    by (auto simp: isdigit_def int_space_def)
  have h: "\<not> int_space (hd (digits n))"
    using digits_not_Nil [of n] digits_isdigit [of "hd (digits n)" n] ns by simp
  have l: "\<not> int_space (hd (rev (digits n)))"
    using digits_not_Nil [of n] digits_isdigit [of "last (digits n)" n] ns
    by (simp add: hd_rev)
  have d1: "dropWhile int_space (digits n) = digits n"
    using h digits_not_Nil [of n] by (cases "digits n") auto
  have d2: "dropWhile int_space (rev (digits n)) = rev (digits n)"
    using l digits_not_Nil [of n] by (cases "rev (digits n)") auto
  show ?thesis
    by (simp add: int_strip_def d1 d2)
qed

lemma py_int_digits: "py_int (digits n) = Inr (int n)"
proof -
  have nd: "\<And>c. isdigit c \<Longrightarrow> c \<noteq> CHR ''+'' \<and> c \<noteq> CHR ''-''"
    by (auto simp: isdigit_def)
  obtain c cs where cs: "digits n = c # cs"
    using digits_not_Nil [of n] by (cases "digits n") auto
  then have "isdigit c"
    using digits_isdigit [of c n] by simp
  then have c: "c \<noteq> CHR ''+''" "c \<noteq> CHR ''-''"
    using nd by auto
  have "scan_digits 0 False (digits n @ []) = Some (int n)"
    by (subst scan_digits_append) (auto simp: digits_isdigit digits_value digits_not_Nil)
  then have sc: "scan_digits 0 False (c # cs) = Some (int n)"
    by (simp add: cs)
  show ?thesis
    unfolding py_int_def int_strip_digits
    using c sc by (simp add: cs)
qed

text \<open>\<open>int(str(n)) == n\<close> for a non-negative \<open>n\<close>.\<close>

lemma py_int_py_str: "0 \<le> n \<Longrightarrow> py_int (py_str n) = Inr n"
  by (simp add: py_str_def py_int_digits)

lemma dash_notin_digits: "CHR ''-'' \<notin> set (digits n)"
  using digits_isdigit [of "CHR ''-''" n] by (auto simp: isdigit_def)

lemma dash_notin_py_str: "0 \<le> n \<Longrightarrow> CHR ''-'' \<notin> set (py_str n)"
  by (simp add: py_str_def dash_notin_digits)

lemma py_int_Nil: "py_int [] = Inl (InvalidLiteral [])"
  by (simp add: py_int_def int_strip_def)

section \<open>RangeSelector\<close>

lemma dash_selector_not_all: "p @ CHR ''-'' # q \<noteq> ''all''"
proof
  assume "p @ CHR ''-'' # q = ''all''"
  then have "CHR ''-'' \<in> set ''all''"
    by (metis in_set_conv_decomp)
  then show False by simp
qed

lemma parse_two_parts:
  assumes "CHR ''-'' \<notin> set p" "CHR ''-'' \<notin> set q"
    and "py_int p = Inr a" "py_int q = Inr b"
  shows "parse_range_or_all (p @ CHR ''-'' # q) D = Inr [a..b]"
proof -
  have sp: "str_split (CHR ''-'') (p @ CHR ''-'' # q) = [p, q]"
    using assms(1,2) by (simp add: str_split_append str_split_no_sep)
  have "unpack2 [p, q] = Inr (a, b)"
    using assms(3,4) by simp
  then show ?thesis
    unfolding parse_range_or_all_def sp
    by (simp add: dash_selector_not_all py_range_upto)
qed

lemma unpack2_Inr_iff:
  "unpack2 ps = Inr (a, b) \<longleftrightarrow> (\<exists>p q. ps = [p, q] \<and> py_int p = Inr a \<and> py_int q = Inr b)"
  by (cases ps rule: unpack2.cases) (auto split: sum.splits list.splits)

lemma unpack2_long: "3 \<le> length ps \<Longrightarrow> \<exists>e. unpack2 ps = Inl e"
  by (cases ps rule: unpack2.cases) (auto split: sum.splits list.splits)

lemma parse_dash_Inr_iff:
  assumes "v \<noteq> ''all''" and "CHR ''-'' \<in> set v"
  shows "parse_range_or_all v D = Inr r \<longleftrightarrow>
           (\<exists>p q a b. str_split (CHR ''-'') v = [p, q] \<and> py_int p = Inr a \<and> py_int q = Inr b
              \<and> r = py_range a (b + 1))"
proof
  assume "parse_range_or_all v D = Inr r"
  then obtain a b where u: "unpack2 (str_split (CHR ''-'') v) = Inr (a, b)"
    and r: "r = py_range a (b + 1)"
    using assms by (auto simp: parse_range_or_all_def split: sum.splits)
  from u obtain p q where "str_split (CHR ''-'') v = [p, q]" "py_int p = Inr a" "py_int q = Inr b"
    unfolding unpack2_Inr_iff by blast
  with r show "\<exists>p q a b. str_split (CHR ''-'') v = [p, q] \<and> py_int p = Inr a \<and> py_int q = Inr b
              \<and> r = py_range a (b + 1)"
    by blast
next
  assume "\<exists>p q a b. str_split (CHR ''-'') v = [p, q] \<and> py_int p = Inr a \<and> py_int q = Inr b
              \<and> r = py_range a (b + 1)"
  then show "parse_range_or_all v D = Inr r"
    using assms by (auto simp: parse_range_or_all_def)
qed

text \<open>
  Claim C8. For every default range \<open>D\<close>, the selector \<open>"all"\<close> resolves to \<open>D\<close> itself,
  unchanged and in the same order.
\<close>

theorem parse_all_is_default: "parse_range_or_all ''all'' D = Inr D"
  by (simp add: parse_range_or_all_def)

theorem parse_all_is_default_witness: "parse_range_or_all ''all'' [3, 1, 2] = Inr [3, 1, 2]"
  using parse_all_is_default [of "[3, 1, 2]"] by simp

text \<open>
  Claim C3 as stated fails for a negative endpoint: the text of \<open>-3\<close> and \<open>5\<close> joined by
  \<open>"-"\<close> is \<open>"-3-5"\<close>, which splits into three pieces, the first of them empty, and the
  conversion of the empty piece raises ValueError.
\<close>

theorem parse_negative_start_rejected:
  "py_str (- 3) @ ''-'' @ py_str 5 = ''-3-5''
   \<and> parse_range_or_all ''-3-5'' [] = Inl (InvalidLiteral [])"
  by code_simp

text \<open>
  Claim C3 (amended). For every pair of non-negative integers \<open>start \<le> end\<close> and every
  default range \<open>D\<close>, the selector written as the decimal text of \<open>start\<close>, a \<open>"-"\<close> and the
  decimal text of \<open>end\<close> resolves to the ascending inclusive sequence
  \<open>start, start+1, \<dots>, end\<close>, independent of \<open>D\<close>.
\<close>

theorem parse_range_inclusive:
  assumes "0 \<le> start" and "start \<le> end"
  shows "parse_range_or_all (py_str start @ ''-'' @ py_str end) D = Inr [start..end]"
proof -
  have e: "0 \<le> end" using assms by linarith
  show ?thesis
    using parse_two_parts [OF dash_notin_py_str [OF assms(1)] dash_notin_py_str [OF e]
        py_int_py_str [OF assms(1)] py_int_py_str [OF e], of D]
    by simp
qed

theorem parse_range_inclusive_witness:
  "(0::int) \<le> 3 \<and> (3::int) \<le> 6 \<and> py_str 3 @ ''-'' @ py_str 6 = ''3-6''
   \<and> parse_range_or_all ''3-6'' [1, 2] = Inr [3, 4, 5, 6]"
proof -
  have s: "py_str 3 @ ''-'' @ py_str 6 = ''3-6''"
    by code_simp
  have u: "[3..6] = [3, 4, 5, 6 :: int]"
    by (simp add: upto_rec_numeral)
  show ?thesis
    using parse_range_inclusive [of 3 6 "[1, 2]"] s u by simp
qed

text \<open>
  Claim C4. A range selector is a string of two pieces joined by \<open>"-"\<close>, each without a
  \<open>"-"\<close> and each accepted by \<open>int\<close>. Whenever its end precedes its start, it resolves to the
  empty sequence: no error is raised and the bounds are not swapped.
\<close>

theorem parse_reversed_range_empty:
  assumes "CHR ''-'' \<notin> set p" and "CHR ''-'' \<notin> set q"
    and "py_int p = Inr start" and "py_int q = Inr end"
    and "end < start"
  shows "parse_range_or_all (p @ ''-'' @ q) D = Inr []"
  using parse_two_parts [OF assms(1-4), of D] assms(5) by simp

theorem parse_reversed_range_empty_witness:
  "CHR ''-'' \<notin> set ''6'' \<and> CHR ''-'' \<notin> set ''3'' \<and> py_int ''6'' = Inr 6 \<and> py_int ''3'' = Inr 3
   \<and> (3::int) < 6 \<and> parse_range_or_all ''6-3'' [1, 2] = Inr []"
proof -
  have a: "py_int ''6'' = Inr 6" by code_simp
  have b: "py_int ''3'' = Inr 3" by code_simp
  show ?thesis
    using parse_reversed_range_empty [of "''6''" "''3''" 6 3 "[1, 2]"] a b by simp
qed

text \<open>
  Claim C10. A selector other than \<open>"all"\<close> that contains a \<open>"-"\<close> takes the range branch:
  it raises an error unless it splits at \<open>"-"\<close> into exactly two pieces that \<open>int\<close> accepts,
  and then it resolves to the range between them. In particular a selector that begins
  with \<open>"-"\<close>, such as the negative integer \<open>"-5"\<close>, raises the error of converting the
  empty piece, and a selector with two or more \<open>"-"\<close>, such as \<open>"1-2-3"\<close>, always raises.
\<close>

theorem parse_dash_selector:
  assumes "v \<noteq> ''all''" and "CHR ''-'' \<in> set v"
  shows "((\<exists>e. parse_range_or_all v D = Inl e) \<longleftrightarrow>
            \<not> (\<exists>p q a b. str_split (CHR ''-'') v = [p, q] \<and> py_int p = Inr a \<and> py_int q = Inr b))
       \<and> (\<forall>p q a b. str_split (CHR ''-'') v = [p, q] \<and> py_int p = Inr a \<and> py_int q = Inr b
             \<longrightarrow> parse_range_or_all v D = Inr (py_range a (b + 1)))
       \<and> (hd v = CHR ''-'' \<longrightarrow> parse_range_or_all v D = Inl (InvalidLiteral []))
       \<and> (2 \<le> count_list v (CHR ''-'') \<longrightarrow> (\<exists>e. parse_range_or_all v D = Inl e))"
proof -
  note iff = parse_dash_Inr_iff [OF assms, of D]
  have two: "\<forall>p q a b. str_split (CHR ''-'') v = [p, q] \<and> py_int p = Inr a \<and> py_int q = Inr b
             \<longrightarrow> parse_range_or_all v D = Inr (py_range a (b + 1))"
    using iff by blast
  have one: "(\<exists>e. parse_range_or_all v D = Inl e) \<longleftrightarrow>
            \<not> (\<exists>p q a b. str_split (CHR ''-'') v = [p, q] \<and> py_int p = Inr a \<and> py_int q = Inr b)"
  proof (cases "parse_range_or_all v D")
    case (Inl e)
    have "\<not> (\<exists>p q a b. str_split (CHR ''-'') v = [p, q] \<and> py_int p = Inr a \<and> py_int q = Inr b)"
    proof
      assume "\<exists>p q a b. str_split (CHR ''-'') v = [p, q] \<and> py_int p = Inr a \<and> py_int q = Inr b"
      then obtain r where "parse_range_or_all v D = Inr r" using two by blast
      with Inl show False by simp
    qed
    with Inl show ?thesis by blast
  next
    case (Inr r)
    then have "\<exists>p q a b. str_split (CHR ''-'') v = [p, q] \<and> py_int p = Inr a \<and> py_int q = Inr b"
      using iff [of r] by blast
    with Inr show ?thesis by simp
  qed
  have three: "hd v = CHR ''-'' \<longrightarrow> parse_range_or_all v D = Inl (InvalidLiteral [])"
  proof
    assume h: "hd v = CHR ''-''"
    from assms(2) obtain c cs where v: "v = c # cs" by (cases v) auto
    with h have "str_split (CHR ''-'') v = [] # str_split (CHR ''-'') cs" by simp
    moreover obtain x xs where "str_split (CHR ''-'') cs = x # xs"
      using str_split_not_Nil [of "CHR ''-''" cs] by (cases "str_split (CHR ''-'') cs") auto
    ultimately have "unpack2 (str_split (CHR ''-'') v) = Inl (InvalidLiteral [])"
      by (simp add: py_int_Nil)
    then show "parse_range_or_all v D = Inl (InvalidLiteral [])"
      using assms by (simp add: parse_range_or_all_def)
  qed
  have four: "2 \<le> count_list v (CHR ''-'') \<longrightarrow> (\<exists>e. parse_range_or_all v D = Inl e)"
  proof
    assume "2 \<le> count_list v (CHR ''-'')"
    then have "3 \<le> length (str_split (CHR ''-'') v)"
      by (simp add: length_str_split)
    then obtain e where "unpack2 (str_split (CHR ''-'') v) = Inl e"
      using unpack2_long by blast
    then show "\<exists>e. parse_range_or_all v D = Inl e"
      using assms by (simp add: parse_range_or_all_def)
  qed
  from one two three four show ?thesis by blast
qed

theorem parse_dash_selector_witness:
  "''-5'' \<noteq> ''all'' \<and> CHR ''-'' \<in> set ''-5'' \<and> py_str (- 5) = ''-5''
   \<and> parse_range_or_all ''-5'' [1, 2] = Inl (InvalidLiteral [])
   \<and> ''1-2-3'' \<noteq> ''all'' \<and> CHR ''-'' \<in> set ''1-2-3''
   \<and> (\<exists>e. parse_range_or_all ''1-2-3'' [1, 2] = Inl e)"
proof -
  have s: "py_str (- 5) = ''-5''"
    by code_simp
  show ?thesis
    using parse_dash_selector [of "''-5''" "[1, 2]"] parse_dash_selector [of "''1-2-3''" "[1, 2]"] s
    by simp
qed

section \<open>Driver\<close>

text \<open>
  Claim C9. With the current calendar year \<open>Y\<close> as an explicit input, the default year
  range is the ascending sequence \<open>2002, 2003, \<dots>, Y - 2\<close>.
\<close>

theorem full_years_span: "full_years now_year = [2002..now_year - 2]"
  by (simp add: full_years_def py_range_upto)

theorem full_years_span_witness: "full_years 2006 = [2002, 2003, 2004]"
  using full_years_span [of 2006] by (simp add: upto_rec_numeral)


section \<open>TableExtractor\<close>

lemma collect_rows_filter:
  "collect_rows headers trs rs =
     rs @ filter (\<lambda>cells. cells \<noteq> [] \<and> length cells = length headers) (map row_cells trs)"
  by (induction trs arbitrary: rs) (simp_all add: Let_def)

lemma fetch_table:
  assumes "r_get (week_url position week year) = Returns resp"
    and "status_code resp = 200"
    and "soup_find ''table'' [(''id'', ''data'')] (content resp) = Some table"
  shows "fetch_week_data r_get position week year =
     ([Print (Fetching position week year), Get (week_url position week year)],
      if valid_rows table = [] then Inr pd_DataFrame_empty
      else if ''week'' \<in> set (table_headers table) then Inl (CannotInsert ''week'')
      else if ''year'' \<in> set (table_headers table) then Inl (CannotInsert ''year'')
      else Inr \<lparr>columns = ''year'' # ''week'' # table_headers table,
                rows = map (\<lambda>cells. IntCell year # IntCell week # map StrCell cells)
                         (valid_rows table)\<rparr>)"
  using assms
  by (simp add: fetch_week_data_def Let_def collect_rows_filter valid_rows_def df_insert_def
      pd_DataFrame_def)

lemma fetch_events:
  "\<exists>tl. fst (fetch_week_data r_get position week year) =
     Print (Fetching position week year) # Get (week_url position week year) # tl
     \<and> (\<forall>e \<in> set tl. written e = None \<and> \<not> is_get e)"
  by (auto simp: fetch_week_data_def Let_def split: outcome.splits option.splits sum.splits)

lemma soup_find_None:
  assumes "\<forall>name attrs contents. Tag name attrs contents \<in> set (descendants t) \<longrightarrow>
             \<not> (name = ''table'' \<and> map_of attrs ''id'' = Some ''data'')"
  shows "soup_find ''table'' [(''id'', ''data'')] t = None"
proof -
  have "\<And>n. n \<in> set (descendants t) \<Longrightarrow> \<not> (is_named ''table'' n \<and> has_attrs [(''id'', ''data'')] n)"
  proof -
    fix n assume n: "n \<in> set (descendants t)"
    show "\<not> (is_named ''table'' n \<and> has_attrs [(''id'', ''data'')] n)"
    proof (cases n)
      case (Tag name attrs contents)
      with n assms have "\<not> (name = ''table'' \<and> map_of attrs ''id'' = Some ''data'')" by blast
      with Tag show ?thesis by (auto simp: is_named_def has_attrs_def)
    next
      case (NavigableString s)
      then show ?thesis by (simp add: is_named_def)
    qed
  qed
  then have "filter (\<lambda>n. is_named ''table'' n \<and> has_attrs [(''id'', ''data'')] n) (descendants t) = []"
    by (simp add: filter_empty_conv)
  then show ?thesis by (simp add: soup_find_def)
qed

lemma fetch_frame:
  assumes "snd (fetch_week_data r_get position week year) = Inr df" and "\<not> df_empty df"
  shows "\<exists>resp table. r_get (week_url position week year) = Returns resp \<and> status_code resp = 200
           \<and> soup_find ''table'' [(''id'', ''data'')] (content resp) = Some table
           \<and> columns df = ''year'' # ''week'' # table_headers table
           \<and> rows df = map (\<lambda>cells. IntCell year # IntCell week # map StrCell cells) (valid_rows table)"
proof (cases "r_get (week_url position week year)")
  case (Raises e)
  with assms show ?thesis by (simp add: fetch_week_data_def Let_def)
next
  case (Returns resp)
  show ?thesis
  proof (cases "status_code resp = 200")
    case False
    with Returns assms show ?thesis
      by (auto simp: fetch_week_data_def Let_def df_empty_def pd_DataFrame_empty_def)
  next
    case True
    show ?thesis
    proof (cases "soup_find ''table'' [(''id'', ''data'')] (content resp)")
      case None
      with Returns True assms show ?thesis
        by (auto simp: fetch_week_data_def Let_def df_empty_def pd_DataFrame_empty_def)
    next
      case (Some table)
      from fetch_table [of r_get position week year resp table] Returns True Some assms
      have "columns df = ''year'' # ''week'' # table_headers table
           \<and> rows df = map (\<lambda>cells. IntCell year # IntCell week # map StrCell cells) (valid_rows table)"
        by (auto simp: df_empty_def pd_DataFrame_empty_def split: if_splits)
      with Returns True Some show ?thesis by blast
    qed
  qed
qed

lemma valid_rows_length: "cells \<in> set (valid_rows table) \<Longrightarrow> length cells = length (table_headers table)"
  by (simp add: valid_rows_def)

lemma fetch_frame_layout:
  assumes "snd (fetch_week_data r_get position week year) = Inr df" and "\<not> df_empty df"
  shows "\<exists>resp table.
          r_get (week_url position week year) = Returns resp
        \<and> soup_find ''table'' [(''id'', ''data'')] (content resp) = Some table
        \<and> columns df = ''year'' # ''week'' # table_headers table
        \<and> (\<forall>row \<in> set (rows df). \<exists>cells.
              row = IntCell year # IntCell week # map StrCell cells
            \<and> length cells = length (table_headers table))"
proof -
  obtain resp table where rt: "r_get (week_url position week year) = Returns resp"
      "soup_find ''table'' [(''id'', ''data'')] (content resp) = Some table"
      "columns df = ''year'' # ''week'' # table_headers table"
      "rows df = map (\<lambda>cells. IntCell year # IntCell week # map StrCell cells) (valid_rows table)"
    using fetch_frame [OF assms] by blast
  have "\<forall>row \<in> set (rows df). \<exists>cells.
              row = IntCell year # IntCell week # map StrCell cells
            \<and> length cells = length (table_headers table)"
    using rt(4) valid_rows_length by auto
  with rt show ?thesis by blast
qed

text \<open>The sample pages, evaluated.\<close>

lemma demo_find: "soup_find ''table'' [(''id'', ''data'')] demo_page = Some demo_table"
  by code_simp

lemma demo_headers: "table_headers demo_table = [''A'', ''B'']"
  by code_simp

lemma demo_cells:
  "map row_cells (drop (Suc 0) (find_all ''tr'' demo_table)) = [[''1'', ''2''], [''x'']]"
  by code_simp

lemma demo_net_0: "demo_net 0 url = Returns \<lparr>status_code = 200, content = demo_page\<rparr>"
  by (simp add: demo_net_def)

lemma demo_fetch_0:
  "fetch_week_data (demo_net 0) ''qb'' 1 2023 =
     ([Print (Fetching ''qb'' 1 2023), Get (week_url ''qb'' 1 2023)], Inr demo_frame)"
  using fetch_table [of "demo_net 0" "''qb''" 1 2023
      "\<lparr>status_code = 200, content = demo_page\<rparr>" demo_table]
  by (simp add: demo_net_0 demo_find demo_headers valid_rows_def demo_cells demo_frame_def)

text \<open>
  Claim C1 as stated fails in two ways. In a data table without header cells, a row
  without cells has as many cells as there are headers, yet the guard \<open>if cells and \<dots>\<close>
  drops it and the empty frame is returned. In a data table one of whose header labels is
  \<open>week\<close>, \<open>df.insert(0, "week", week)\<close> raises ValueError and no row is emitted at all.
\<close>

theorem fetch_week_data_drops_empty_row:
  "soup_find ''table'' [(''id'', ''data'')] bare_page = Some bare_table
   \<and> table_headers bare_table = []
   \<and> map row_cells (drop 1 (find_all ''tr'' bare_table)) = [[]]
   \<and> snd (fetch_week_data bare_get ''qb'' 1 2023) = Inr pd_DataFrame_empty
   \<and> rows pd_DataFrame_empty = []
   \<and> snd (fetch_week_data week_get ''qb'' 1 2023) = Inl (CannotInsert ''week'')"
  by code_simp

text \<open>
  Claim C1 (amended). For every fetched data table none of whose header labels is \<open>year\<close>
  or \<open>week\<close>, \<open>fetch_week_data\<close> emits a row for exactly those \<open>tr\<close> elements after the first
  one whose list of trimmed cells is not empty and as long as the header list, in table
  order, each prefixed with the year and the week; every other row is dropped without a
  diagnostic. For header \<open>A\<close>, \<open>B\<close> and rows \<open>1\<close>, \<open>2\<close> and \<open>x\<close> exactly one row is emitted.
\<close>

theorem fetch_week_data_keeps_valid_rows:
  assumes "r_get (week_url position week year) = Returns resp"
    and "status_code resp = 200"
    and "soup_find ''table'' [(''id'', ''data'')] (content resp) = Some table"
    and "''year'' \<notin> set (table_headers table)" and "''week'' \<notin> set (table_headers table)"
  shows "\<exists>df. fetch_week_data r_get position week year =
           ([Print (Fetching position week year), Get (week_url position week year)], Inr df)
      \<and> rows df = map (\<lambda>cells. IntCell year # IntCell week # map StrCell cells)
                  (filter (\<lambda>cells. cells \<noteq> [] \<and> length cells = length (table_headers table))
                     (map row_cells (drop 1 (find_all ''tr'' table))))
      \<and> (rows df \<noteq> [] \<longrightarrow> columns df = ''year'' # ''week'' # table_headers table)"
  using fetch_table [of r_get position week year resp table] assms
  by (auto simp: valid_rows_def pd_DataFrame_empty_def)

theorem fetch_week_data_keeps_valid_rows_witness:
  "\<exists>df. fetch_week_data (demo_net 0) ''qb'' 1 2023 =
           ([Print (Fetching ''qb'' 1 2023), Get (week_url ''qb'' 1 2023)], Inr df)
      \<and> rows df = [[IntCell 2023, IntCell 1, StrCell ''1'', StrCell ''2'']]
      \<and> columns df = [''year'', ''week'', ''A'', ''B'']"
  using fetch_week_data_keeps_valid_rows [of "demo_net 0" "''qb''" 1 2023
      "\<lparr>status_code = 200, content = demo_page\<rparr>" demo_table]
  by (auto simp: demo_net_0 demo_find demo_headers demo_cells)

text \<open>
  Claim C5. When the page of a response holds no \<open>table\<close> element whose \<open>id\<close> is \<open>data\<close>,
  \<open>fetch_week_data\<close> returns the empty frame and raises nothing; for a response with
  status 200 it prints the "No table found" diagnostic.
\<close>

theorem fetch_week_data_no_table:
  assumes "r_get (week_url position week year) = Returns resp"
    and "\<forall>name attrs contents. Tag name attrs contents \<in> set (descendants (content resp)) \<longrightarrow>
             \<not> (name = ''table'' \<and> map_of attrs ''id'' = Some ''data'')"
  shows "snd (fetch_week_data r_get position week year) = Inr pd_DataFrame_empty
      \<and> df_empty pd_DataFrame_empty
      \<and> (status_code resp = 200 \<longrightarrow>
           fst (fetch_week_data r_get position week year) =
             [Print (Fetching position week year), Get (week_url position week year),
              Print (NoTableFound position week year)])"
  using assms(1) soup_find_None [OF assms(2)]
  by (simp add: fetch_week_data_def Let_def df_empty_def pd_DataFrame_empty_def)

theorem fetch_week_data_no_table_witness:
  "snd (fetch_week_data no_table_get ''qb'' 2 2023) = Inr pd_DataFrame_empty
   \<and> fst (fetch_week_data no_table_get ''qb'' 2 2023)
       = [Print (Fetching ''qb'' 2 2023), Get (week_url ''qb'' 2 2023),
          Print (NoTableFound ''qb'' 2 2023)]"
proof -
  have d: "descendants no_table_page =
     [Tag ''p'' [] [NavigableString ''maintenance''], NavigableString ''maintenance'',
      Tag ''table'' [(''id'', ''other'')] []]"
    by (simp add: no_table_page_def)
  have h: "\<forall>name attrs contents. Tag name attrs contents \<in> set (descendants no_table_page) \<longrightarrow>
             \<not> (name = ''table'' \<and> map_of attrs ''id'' = Some ''data'')"
    unfolding d by auto
  show ?thesis
    using fetch_week_data_no_table [of no_table_get "''qb''" 2 2023
             "\<lparr>status_code = 200, content = no_table_page\<rparr>"] h
    by (simp add: no_table_get_def)
qed

section \<open>PositionYearScraper\<close>


lemma scrape_loop_frames:
  "snd (scrape_loop net position year ws n evs aw) = aw @ week_frames net position year n ws"
  by (induction ws arbitrary: n evs aw) (auto split: prod.splits sum.splits)

lemma scrape_loop_events:
  "\<exists>tl. fst (scrape_loop net position year ws n evs aw) = evs @ tl
     \<and> (\<forall>e \<in> set tl. written e = None)
     \<and> filter is_get tl = map (\<lambda>w. Get (week_url position w year)) ws"
proof (induction ws arbitrary: n evs aw)
  case Nil
  then show ?case by simp
next
  case (Cons w ws)
  obtain fev r where f: "fetch_week_data (net n) position w year = (fev, r)"
    by (cases "fetch_week_data (net n) position w year") auto
  obtain ft where fev: "fev = Print (Fetching position w year) # Get (week_url position w year) # ft"
    and ft: "\<forall>e \<in> set ft. written e = None \<and> \<not> is_get e"
    using fetch_events [of "net n" position w year] f by auto
  have mf: "filter is_get ft = []"
    using ft by simp
  show ?case
  proof (cases r)
    case (Inl e)
    obtain tl where tl: "fst (scrape_loop net position year ws (Suc n) (evs @ fev @ [Print (ErrorMsg e)]) aw)
        = (evs @ fev @ [Print (ErrorMsg e)]) @ tl"
      "\<forall>e \<in> set tl. written e = None"
      "filter is_get tl = map (\<lambda>w. Get (week_url position w year)) ws"
      using Cons.IH by blast
    show ?thesis
      apply (rule exI [of _ "fev @ [Print (ErrorMsg e)] @ tl"])
      using f Inl tl ft fev mf
      by auto
  next
    case (Inr df)
    let ?aw = "if \<not> df_empty df then aw @ [df] else aw"
    obtain tl where tl: "fst (scrape_loop net position year ws (Suc n) (evs @ fev @ [Sleep]) ?aw)
        = (evs @ fev @ [Sleep]) @ tl"
      "\<forall>e \<in> set tl. written e = None"
      "filter is_get tl = map (\<lambda>w. Get (week_url position w year)) ws"
      using Cons.IH by blast
    show ?thesis
      apply (rule exI [of _ "fev @ [Sleep] @ tl"])
      using f Inr tl ft fev mf
      by auto
  qed
qed


lemma week_frames_member:
  "f \<in> set (week_frames net position year n ws) \<Longrightarrow>
     \<exists>i < length ws. snd (fetch_week_data (net (n + i)) position (ws ! i) year) = Inr f \<and> \<not> df_empty f"
proof (induction ws arbitrary: n)
  case Nil
  then show ?case by simp
next
  case (Cons w ws)
  from Cons.prems consider
    (here) "snd (fetch_week_data (net n) position w year) = Inr f" "\<not> df_empty f"
    | (later) "f \<in> set (week_frames net position year (Suc n) ws)"
    by (auto split: sum.splits if_splits)
  then show ?case
  proof cases
    case here
    then show ?thesis by (intro exI [of _ 0]) simp
  next
    case later
    then obtain i where "i < length ws"
      "snd (fetch_week_data (net (Suc n + i)) position (ws ! i) year) = Inr f" "\<not> df_empty f"
      using Cons.IH by blast
    then show ?thesis by (intro exI [of _ "Suc i"]) simp
  qed
qed

lemma scrape_written:
  assumes "e \<in> set (scrape net outer position year weeks output_dir file_format)"
    and "written e = Some ydf"
  shows "week_frames net position year 0 weeks \<noteq> []
     \<and> ydf = pd_concat outer (week_frames net position year 0 weeks)"
proof -
  obtain tl where tl: "fst (scrape_loop net position year weeks 0 [Print (Scraping position year)] [])
       = [Print (Scraping position year)] @ tl" "\<forall>e \<in> set tl. written e = None"
    using scrape_loop_events [of net position year weeks 0 "[Print (Scraping position year)]" "[]"]
    by blast
  have fr: "snd (scrape_loop net position year weeks 0 [Print (Scraping position year)] [])
      = week_frames net position year 0 weeks"
    by (simp add: scrape_loop_frames)
  from assms tl fr show ?thesis
    by (auto simp: scrape_def Let_def case_prod_beta split: if_splits)
qed

lemma pd_concat_same_columns:
  assumes "frames \<noteq> []" and "\<forall>f \<in> set frames. columns f = cols"
  shows "pd_concat outer frames = \<lparr>columns = cols, rows = concat (map rows frames)\<rparr>"
proof -
  have "columns (hd frames) = cols" using assms by simp
  then show ?thesis using assms(2) by (simp add: pd_concat_def list_all_iff)
qed

lemma scrape_loop_closed:
  "scrape_loop net position year ws n evs aw =
     (evs @ week_trace net position year n ws, aw @ week_frames net position year n ws)"
  by (induction ws arbitrary: n evs aw) (auto split: prod.splits sum.splits)

lemma week_trace_append:
  "week_trace net position year n (ws1 @ ws2) =
     week_trace net position year n ws1 @ week_trace net position year (n + length ws1) ws2"
  by (induction ws1 arbitrary: n) auto

lemma week_frames_append:
  "week_frames net position year n (ws1 @ ws2) =
     week_frames net position year n ws1 @ week_frames net position year (n + length ws1) ws2"
  by (induction ws1 arbitrary: n) auto

lemma fetch_empty_rows:
  assumes "snd (fetch_week_data r_get position week year) = Inr df" and "df_empty df"
  shows "rows df = []"
proof (cases "r_get (week_url position week year)")
  case (Raises e)
  with assms show ?thesis by (simp add: fetch_week_data_def Let_def)
next
  case (Returns resp)
  show ?thesis
  proof (cases "status_code resp = 200")
    case False
    with Returns assms show ?thesis
      by (auto simp: fetch_week_data_def Let_def pd_DataFrame_empty_def)
  next
    case True
    show ?thesis
    proof (cases "soup_find ''table'' [(''id'', ''data'')] (content resp)")
      case None
      with Returns True assms show ?thesis
        by (auto simp: fetch_week_data_def Let_def pd_DataFrame_empty_def)
    next
      case (Some table)
      from fetch_table [of r_get position week year resp table] Returns True Some assms
      show ?thesis
        by (auto simp: df_empty_def pd_DataFrame_empty_def split: if_splits)
    qed
  qed
qed

lemma week_frames_rows:
  "concat (map rows (week_frames net position year n ws)) =
     concat (map (\<lambda>(i, w). fetched_rows (snd (fetch_week_data (net i) position w year)))
                 (enumerate n ws))"
proof (induction ws arbitrary: n)
  case Nil
  then show ?case by simp
next
  case (Cons w ws)
  show ?case
  proof (cases "snd (fetch_week_data (net n) position w year)")
    case (Inl e)
    then show ?thesis using Cons.IH [of "Suc n"] by (simp add: fetched_rows_def)
  next
    case (Inr df)
    then show ?thesis
      using Cons.IH [of "Suc n"] fetch_empty_rows [of "net n" position w year df]
      by (simp add: fetched_rows_def)
  qed
qed

lemma scrape_closed:
  "scrape net outer position year weeks output_dir file_format =
     (if week_frames net position year 0 weeks \<noteq> [] then
        Print (Scraping position year) # week_trace net position year 0 weeks
          @ [Makedirs (path_join output_dir position)]
          @ (if str_lower file_format = ''csv''
               then [ToCsv (output_file output_dir position year file_format)
                       (year_frame net outer position year weeks)]
             else if str_lower file_format = ''parquet''
               then [ToParquet (output_file output_dir position year file_format)
                       (year_frame net outer position year weeks)]
             else if str_lower file_format = ''json''
               then [ToJson (output_file output_dir position year file_format)
                       (year_frame net outer position year weeks)]
             else [])
          @ [Print (Saved (length (rows (year_frame net outer position year weeks)))
                      (output_file output_dir position year file_format))]
      else Print (Scraping position year) # week_trace net position year 0 weeks
             @ [Print (NoData position year)])"
  by (simp add: scrape_def scrape_loop_closed Let_def year_frame_def output_file_def)

lemma week_trace_events:
  "(\<forall>e \<in> set (week_trace net position year n ws). written e = None)
   \<and> filter is_get (week_trace net position year n ws) = map (\<lambda>w. Get (week_url position w year)) ws"
  using scrape_loop_events [of net position year ws n "[]" "[]"]
  by (simp add: scrape_loop_closed)

lemma fetched_rows_layout:
  assumes tables: "\<forall>n url resp table.
          net n url = Returns resp \<and> status_code resp = 200
          \<and> soup_find ''table'' [(''id'', ''data'')] (content resp) = Some table
          \<longrightarrow> table_headers table = hs"
    and row: "row \<in> set (fetched_rows (snd (fetch_week_data (net i) position w year)))"
  shows "\<exists>cells. row = IntCell year # IntCell w # map StrCell cells \<and> length cells = length hs"
proof -
  obtain df where df: "snd (fetch_week_data (net i) position w year) = Inr df"
    and r: "row \<in> set (rows df)"
  proof (cases "snd (fetch_week_data (net i) position w year)")
    case (Inl e)
    with row show ?thesis by (simp add: fetched_rows_def)
  next
    case (Inr df)
    with row that show ?thesis by (simp add: fetched_rows_def)
  qed
  then have "\<not> df_empty df"
    using fetch_empty_rows [OF df] by auto
  then obtain resp table where rt: "net i (week_url position w year) = Returns resp"
      "status_code resp = 200"
      "soup_find ''table'' [(''id'', ''data'')] (content resp) = Some table"
      "rows df = map (\<lambda>cells. IntCell year # IntCell w # map StrCell cells) (valid_rows table)"
    using fetch_frame [OF df] by blast
  have "table_headers table = hs"
    using tables rt(1-3) by blast
  then show ?thesis
    using r rt(4) valid_rows_length [of _ table] by auto
qed

lemma fetch_raises:
  "r_get (week_url position w year) = Raises e \<Longrightarrow>
     fetch_week_data r_get position w year
      = ([Print (Fetching position w year), Get (week_url position w year)], Inl e)"
  by (simp add: fetch_week_data_def Let_def)

lemma fetch_bad_status:
  "r_get (week_url position w year) = Returns resp \<Longrightarrow> status_code resp \<noteq> 200 \<Longrightarrow>
     fetch_week_data r_get position w year
      = ([Print (Fetching position w year), Get (week_url position w year),
          Print (HttpStatus (status_code resp) (week_url position w year))], Inr pd_DataFrame_empty)"
  by (simp add: fetch_week_data_def Let_def)




lemma demo_scrape_member:
  "ToCsv ''data/qb/qb_2023.csv'' demo_frame
     \<in> set (scrape demo_net no_outer ''qb'' 2023 [1, 2] ''data'' ''csv'')"
  by code_simp

lemma demo_fetched_rows:
  "fetched_rows (snd (fetch_week_data (demo_net 0) ''qb'' 1 2023))
     @ fetched_rows (snd (fetch_week_data (demo_net (Suc 0)) ''qb'' 2 2023))
   = [[IntCell 2023, IntCell 1, StrCell ''1'', StrCell ''2'']]"
  by code_simp

lemma flaky_trace:
  "week_trace flaky_net ''qb'' 2023 (Suc 0) [2, 3] =
     [Print (Fetching ''qb'' 2 2023), Get (week_url ''qb'' 2 2023), Sleep,
      Print (Fetching ''qb'' 3 2023), Get (week_url ''qb'' 3 2023),
      Print (ErrorMsg (RequestException ''timed out''))]"
  by code_simp

lemma flaky_frames: "week_frames flaky_net ''qb'' 2023 (Suc 0) [2, 3] = [demo_frame_2]"
  by code_simp


text \<open>
  Claim C2 as stated fails for a format the writers do not know: \<open>scrape\<close> called with the
  format \<open>xml\<close> collects a row, creates the directory and reports one saved row, but no
  writer runs.
\<close>

lemma flaky_trace_before:
  "week_trace flaky_net ''qb'' 2023 0 [1, 2] =
     [Print (Fetching ''qb'' 1 2023), Get (week_url ''qb'' 1 2023),
      Print (HttpStatus 404 (week_url ''qb'' 1 2023)), Sleep,
      Print (Fetching ''qb'' 2 2023), Get (week_url ''qb'' 2 2023), Sleep]"
  by code_simp

lemma flaky_frames_before: "week_frames flaky_net ''qb'' 2023 0 [1, 2] = [demo_frame_2]"
  by code_simp




text \<open>
  Claim C6. Every non-empty frame \<open>fetch_week_data\<close> returns has the columns \<open>year\<close>, \<open>week\<close>
  and then the header labels of the page's data table in their order, and each of its rows
  begins with the year and the week of the fetch. When the data tables served for a pair
  share the header list \<open>hs\<close>, the frame \<open>scrape\<close> writes has the columns \<open>year\<close>, \<open>week\<close>, \<open>hs\<close>,
  and its rows are the rows the fetches of the weeks handed back, in week order, each
  beginning with the year and with the week of the fetch it came from.
\<close>

theorem year_week_lead_columns:
  "(snd (fetch_week_data r_get position week year) = Inr df \<and> \<not> df_empty df \<longrightarrow>
      (\<exists>resp table.
          r_get (week_url position week year) = Returns resp
        \<and> soup_find ''table'' [(''id'', ''data'')] (content resp) = Some table
        \<and> columns df = ''year'' # ''week'' # table_headers table
        \<and> (\<forall>row \<in> set (rows df). \<exists>cells.
              row = IntCell year # IntCell week # map StrCell cells
            \<and> length cells = length (table_headers table))))
   \<and> ((\<forall>n url resp table.
          net n url = Returns resp \<and> status_code resp = 200
          \<and> soup_find ''table'' [(''id'', ''data'')] (content resp) = Some table
          \<longrightarrow> table_headers table = hs)
       \<and> e \<in> set (scrape net outer position year weeks output_dir file_format)
       \<and> written e = Some ydf
       \<longrightarrow> columns ydf = ''year'' # ''week'' # hs
         \<and> rows ydf =
             concat (map (\<lambda>(i, w). fetched_rows (snd (fetch_week_data (net i) position w year)))
                         (enumerate 0 weeks))
         \<and> (\<forall>(i, w) \<in> set (enumerate 0 weeks).
              \<forall>row \<in> set (fetched_rows (snd (fetch_week_data (net i) position w year))).
                \<exists>cells. row = IntCell year # IntCell w # map StrCell cells
                       \<and> length cells = length hs))"
proof (rule conjI; rule impI)
  assume "snd (fetch_week_data r_get position week year) = Inr df \<and> \<not> df_empty df"
  then show "\<exists>resp table.
          r_get (week_url position week year) = Returns resp
        \<and> soup_find ''table'' [(''id'', ''data'')] (content resp) = Some table
        \<and> columns df = ''year'' # ''week'' # table_headers table
        \<and> (\<forall>row \<in> set (rows df). \<exists>cells.
              row = IntCell year # IntCell week # map StrCell cells
            \<and> length cells = length (table_headers table))"
    using fetch_frame_layout [of r_get position week year df] by blast
next
  assume a: "(\<forall>n url resp table.
          net n url = Returns resp \<and> status_code resp = 200
          \<and> soup_find ''table'' [(''id'', ''data'')] (content resp) = Some table
          \<longrightarrow> table_headers table = hs)
       \<and> e \<in> set (scrape net outer position year weeks output_dir file_format)
       \<and> written e = Some ydf"
  then have tables: "\<forall>n url resp table.
          net n url = Returns resp \<and> status_code resp = 200
          \<and> soup_find ''table'' [(''id'', ''data'')] (content resp) = Some table
          \<longrightarrow> table_headers table = hs"
    and e: "e \<in> set (scrape net outer position year weeks output_dir file_format)"
    and w: "written e = Some ydf"
    by blast+
  let ?frames = "week_frames net position year 0 weeks"
  have ne: "?frames \<noteq> []" and ydf: "ydf = pd_concat outer ?frames"
    using scrape_written [OF e w] by auto
  have cols: "\<forall>f \<in> set ?frames. columns f = ''year'' # ''week'' # hs"
  proof
    fix f assume "f \<in> set ?frames"
    then obtain i where i: "i < length weeks"
       "snd (fetch_week_data (net (0 + i)) position (weeks ! i) year) = Inr f" "\<not> df_empty f"
      using week_frames_member [of f net position year 0 weeks] by blast
    then obtain resp table where rt: "net i (week_url position (weeks ! i) year) = Returns resp"
      "status_code resp = 200"
      "soup_find ''table'' [(''id'', ''data'')] (content resp) = Some table"
      "columns f = ''year'' # ''week'' # table_headers table"
      using fetch_frame [of "net i" position "weeks ! i" year f] by auto
    have "table_headers table = hs"
      using tables rt(1-3) by blast
    with rt(4) show "columns f = ''year'' # ''week'' # hs" by simp
  qed
  have eq: "ydf = \<lparr>columns = ''year'' # ''week'' # hs, rows = concat (map rows ?frames)\<rparr>"
    using pd_concat_same_columns [OF ne, of "''year'' # ''week'' # hs" outer] ydf cols by simp
  have lay: "\<forall>(i, w) \<in> set (enumerate 0 weeks).
              \<forall>row \<in> set (fetched_rows (snd (fetch_week_data (net i) position w year))).
                \<exists>cells. row = IntCell year # IntCell w # map StrCell cells
                       \<and> length cells = length hs"
    using fetched_rows_layout [OF tables] by blast
  show "columns ydf = ''year'' # ''week'' # hs
         \<and> rows ydf =
             concat (map (\<lambda>(i, w). fetched_rows (snd (fetch_week_data (net i) position w year)))
                         (enumerate 0 weeks))
         \<and> (\<forall>(i, w) \<in> set (enumerate 0 weeks).
              \<forall>row \<in> set (fetched_rows (snd (fetch_week_data (net i) position w year))).
                \<exists>cells. row = IntCell year # IntCell w # map StrCell cells
                       \<and> length cells = length hs)"
    using eq lay by (simp add: week_frames_rows)
qed

theorem year_week_lead_columns_witness:
  "snd (fetch_week_data (demo_net 0) ''qb'' 1 2023) = Inr demo_frame
   \<and> \<not> df_empty demo_frame
   \<and> (\<exists>resp table.
          demo_net 0 (week_url ''qb'' 1 2023) = Returns resp
        \<and> soup_find ''table'' [(''id'', ''data'')] (content resp) = Some table
        \<and> columns demo_frame = ''year'' # ''week'' # table_headers table)
   \<and> (\<exists>path ydf.
          ToCsv path ydf \<in> set (scrape demo_net no_outer ''qb'' 2023 [1, 2] ''data'' ''csv'')
        \<and> columns ydf = [''year'', ''week'', ''A'', ''B'']
        \<and> rows ydf = [[IntCell 2023, IntCell 1, StrCell ''1'', StrCell ''2'']])"
proof -
  have a: "snd (fetch_week_data (demo_net 0) ''qb'' 1 2023) = Inr demo_frame"
    by (simp add: demo_fetch_0)
  have b: "\<not> df_empty demo_frame"
    by (simp add: df_empty_def demo_frame_def)
  have h: "\<forall>n url resp table.
          demo_net n url = Returns resp \<and> status_code resp = 200
          \<and> soup_find ''table'' [(''id'', ''data'')] (content resp) = Some table
          \<longrightarrow> table_headers table = [''A'', ''B'']"
    by (auto simp: demo_net_def demo_find demo_headers split: if_splits)
  have w: "written (ToCsv ''data/qb/qb_2023.csv'' demo_frame) = Some demo_frame"
    by simp
  note inst = year_week_lead_columns [of "demo_net 0" "''qb''" 1 2023 demo_frame demo_net "[''A'', ''B'']"
      "ToCsv ''data/qb/qb_2023.csv'' demo_frame" no_outer "[1, 2]"
      "''data''" "''csv''" demo_frame]
  have c: "\<exists>resp table.
          demo_net 0 (week_url ''qb'' 1 2023) = Returns resp
        \<and> soup_find ''table'' [(''id'', ''data'')] (content resp) = Some table
        \<and> columns demo_frame = ''year'' # ''week'' # table_headers table"
    using inst a b by blast
  have d: "columns demo_frame = ''year'' # ''week'' # [''A'', ''B'']
     \<and> rows demo_frame =
         concat (map (\<lambda>(i, w). fetched_rows (snd (fetch_week_data (demo_net i) ''qb'' w 2023)))
                     (enumerate 0 [1, 2]))"
    using inst h demo_scrape_member w by blast
  then have "columns demo_frame = [''year'', ''week'', ''A'', ''B'']
     \<and> rows demo_frame = [[IntCell 2023, IntCell 1, StrCell ''1'', StrCell ''2'']]"
    using demo_fetched_rows by simp
  then show ?thesis
    using a b c demo_scrape_member by blast
qed

text \<open>
  Claim C7. When the request of a week raises, or its response has a status other than
  200 (so every status outside 2xx), the loop of \<open>scrape\<close> ends in the state the other
  weeks alone produce, but for the failed week's messages: the trace holds the events of
  the weeks before, the request and the diagnostic of the failed week, and the events of
  the weeks after; the frames collected are those of the weeks before and after. Whatever
  the answers, \<open>scrape\<close> requests every week of the list, in order, and returns.
\<close>

theorem scrape_skips_failed_week:
  "(net (n + length ws1) (week_url position w year) = Raises e \<longrightarrow>
      scrape_loop net position year (ws1 @ w # ws2) n evs aw =
        (evs @ week_trace net position year n ws1
             @ [Print (Fetching position w year), Get (week_url position w year),
                Print (ErrorMsg e)]
             @ week_trace net position year (Suc (n + length ws1)) ws2,
         aw @ week_frames net position year n ws1
            @ week_frames net position year (Suc (n + length ws1)) ws2))
   \<and> (net (n + length ws1) (week_url position w year) = Returns resp
        \<and> status_code resp \<noteq> 200 \<longrightarrow>
      scrape_loop net position year (ws1 @ w # ws2) n evs aw =
        (evs @ week_trace net position year n ws1
             @ [Print (Fetching position w year), Get (week_url position w year),
                Print (HttpStatus (status_code resp) (week_url position w year)), Sleep]
             @ week_trace net position year (Suc (n + length ws1)) ws2,
         aw @ week_frames net position year n ws1
            @ week_frames net position year (Suc (n + length ws1)) ws2))
   \<and> filter is_get (scrape net outer position year weeks output_dir file_format)
        = map (\<lambda>w. Get (week_url position w year)) weeks"
proof (intro conjI impI)
  assume "net (n + length ws1) (week_url position w year) = Raises e"
  then show "scrape_loop net position year (ws1 @ w # ws2) n evs aw =
        (evs @ week_trace net position year n ws1
             @ [Print (Fetching position w year), Get (week_url position w year),
                Print (ErrorMsg e)]
             @ week_trace net position year (Suc (n + length ws1)) ws2,
         aw @ week_frames net position year n ws1
            @ week_frames net position year (Suc (n + length ws1)) ws2)"
    by (simp add: scrape_loop_closed week_trace_append week_frames_append fetch_raises)
next
  assume "net (n + length ws1) (week_url position w year) = Returns resp
        \<and> status_code resp \<noteq> 200"
  then show "scrape_loop net position year (ws1 @ w # ws2) n evs aw =
        (evs @ week_trace net position year n ws1
             @ [Print (Fetching position w year), Get (week_url position w year),
                Print (HttpStatus (status_code resp) (week_url position w year)), Sleep]
             @ week_trace net position year (Suc (n + length ws1)) ws2,
         aw @ week_frames net position year n ws1
            @ week_frames net position year (Suc (n + length ws1)) ws2)"
    by (simp add: scrape_loop_closed week_trace_append week_frames_append fetch_bad_status
        df_empty_def pd_DataFrame_empty_def)
next
  show "filter is_get (scrape net outer position year weeks output_dir file_format)
        = map (\<lambda>w. Get (week_url position w year)) weeks"
    using week_trace_events [of net position year 0 weeks]
    by (simp add: scrape_closed)
qed

theorem scrape_skips_failed_week_witness:
  "flaky_net 0 (week_url ''qb'' 1 2023) = Returns \<lparr>status_code = 404, content = no_table_page\<rparr>
   \<and> scrape_loop flaky_net ''qb'' 2023 ([] @ 1 # [2, 3]) 0 [] [] =
       ([Print (Fetching ''qb'' 1 2023), Get (week_url ''qb'' 1 2023),
         Print (HttpStatus 404 (week_url ''qb'' 1 2023)), Sleep,
         Print (Fetching ''qb'' 2 2023), Get (week_url ''qb'' 2 2023), Sleep,
         Print (Fetching ''qb'' 3 2023), Get (week_url ''qb'' 3 2023),
         Print (ErrorMsg (RequestException ''timed out''))],
        [demo_frame_2])
   \<and> flaky_net 2 (week_url ''qb'' 3 2023) = Raises (RequestException ''timed out'')
   \<and> scrape_loop flaky_net ''qb'' 2023 ([1, 2] @ 3 # []) 0 [] [] =
       ([Print (Fetching ''qb'' 1 2023), Get (week_url ''qb'' 1 2023),
         Print (HttpStatus 404 (week_url ''qb'' 1 2023)), Sleep,
         Print (Fetching ''qb'' 2 2023), Get (week_url ''qb'' 2 2023), Sleep,
         Print (Fetching ''qb'' 3 2023), Get (week_url ''qb'' 3 2023),
         Print (ErrorMsg (RequestException ''timed out''))],
        [demo_frame_2])"
proof -
  have s: "flaky_net (0 + length ([] :: int list)) (week_url ''qb'' 1 2023)
      = Returns \<lparr>status_code = 404, content = no_table_page\<rparr>"
    by (simp add: flaky_net_def)
  have c: "status_code \<lparr>status_code = 404, content = no_table_page\<rparr> \<noteq> 200"
    by simp
  have "scrape_loop flaky_net ''qb'' 2023 ([] @ 1 # [2, 3]) 0 [] [] =
        ([] @ week_trace flaky_net ''qb'' 2023 0 []
             @ [Print (Fetching ''qb'' 1 2023), Get (week_url ''qb'' 1 2023),
                Print (HttpStatus (status_code \<lparr>status_code = 404, content = no_table_page\<rparr>)
                         (week_url ''qb'' 1 2023)), Sleep]
             @ week_trace flaky_net ''qb'' 2023 (Suc (0 + length ([] :: int list))) [2, 3],
         [] @ week_frames flaky_net ''qb'' 2023 0 []
            @ week_frames flaky_net ''qb'' 2023 (Suc (0 + length ([] :: int list))) [2, 3])"
    using scrape_skips_failed_week [of flaky_net 0 "[]" "''qb''" 1 2023 _ "[2, 3]" "[]" "[]"
                "\<lparr>status_code = 404, content = no_table_page\<rparr>"] s c
    by blast
  then have one: "scrape_loop flaky_net ''qb'' 2023 ([] @ 1 # [2, 3]) 0 [] [] =
       ([Print (Fetching ''qb'' 1 2023), Get (week_url ''qb'' 1 2023),
         Print (HttpStatus 404 (week_url ''qb'' 1 2023)), Sleep,
         Print (Fetching ''qb'' 2 2023), Get (week_url ''qb'' 2 2023), Sleep,
         Print (Fetching ''qb'' 3 2023), Get (week_url ''qb'' 3 2023),
         Print (ErrorMsg (RequestException ''timed out''))],
        [demo_frame_2])"
    by (simp only: flaky_trace flaky_frames week_trace.simps(1) week_frames.simps(1)
        append_Nil append_Cons list.size add_0 select_convs)
  have r: "flaky_net (0 + length [1, 2 :: int]) (week_url ''qb'' 3 2023)
      = Raises (RequestException ''timed out'')"
    by (simp add: flaky_net_def)
  have "scrape_loop flaky_net ''qb'' 2023 ([1, 2] @ 3 # []) 0 [] [] =
        ([] @ week_trace flaky_net ''qb'' 2023 0 [1, 2]
             @ [Print (Fetching ''qb'' 3 2023), Get (week_url ''qb'' 3 2023),
                Print (ErrorMsg (RequestException ''timed out''))]
             @ week_trace flaky_net ''qb'' 2023 (Suc (0 + length [1, 2 :: int])) [],
         [] @ week_frames flaky_net ''qb'' 2023 0 [1, 2]
            @ week_frames flaky_net ''qb'' 2023 (Suc (0 + length [1, 2 :: int])) [])"
    using scrape_skips_failed_week [of flaky_net 0 "[1, 2]" "''qb''" 3 2023
                "RequestException ''timed out''" "[]" "[]" "[]"] r
    by blast
  then have two: "scrape_loop flaky_net ''qb'' 2023 ([1, 2] @ 3 # []) 0 [] [] =
       ([Print (Fetching ''qb'' 1 2023), Get (week_url ''qb'' 1 2023),
         Print (HttpStatus 404 (week_url ''qb'' 1 2023)), Sleep,
         Print (Fetching ''qb'' 2 2023), Get (week_url ''qb'' 2 2023), Sleep,
         Print (Fetching ''qb'' 3 2023), Get (week_url ''qb'' 3 2023),
         Print (ErrorMsg (RequestException ''timed out''))],
        [demo_frame_2])"
    by (simp only: flaky_trace_before flaky_frames_before week_trace.simps(1) week_frames.simps(1)
        append_Nil append_Nil2 append_Cons)
  have s': "flaky_net 0 (week_url ''qb'' 1 2023)
      = Returns \<lparr>status_code = 404, content = no_table_page\<rparr>"
    by (simp add: flaky_net_def)
  have r': "flaky_net 2 (week_url ''qb'' 3 2023) = Raises (RequestException ''timed out'')"
    by (simp add: flaky_net_def)
  from s' one r' two show ?thesis by blast
qed

end
